theory Spec2Isabelle
  imports Complex_Main "HOL-Library.AList"
begin

section \<open>Python values\<close>

text \<open>
  The scripts work on decoded JSON: every raw trade, activity row, receipt and
  transaction is a \<open>dict\<close> whose values are \<open>None\<close>, booleans, integers, floats,
  strings, lists or dicts. Floats are modelled as exact rationals (no rounding, no \<open>nan\<close>,
  no \<open>inf\<close>), strings as ASCII text.
\<close>

datatype pyval =
    PNone
  | PBool bool
  | PInt int
  | PFloat rat
  | PStr string
  | PList "pyval list"
  | PDict "(string \<times> pyval) list"

type_synonym pydict = "(string \<times> pyval) list"

datatype pyerr = ValueError | TypeError | OverflowError

text \<open>Truth value of an object, as \<open>if x\<close>, \<open>not x\<close> and \<open>x or y\<close> test it.\<close>

fun truthy :: "pyval \<Rightarrow> bool" where
  "truthy PNone = False"
| "truthy (PBool b) = b"
| "truthy (PInt i) = (i \<noteq> 0)"
| "truthy (PFloat r) = (r \<noteq> 0)"
| "truthy (PStr s) = (s \<noteq> [])"
| "truthy (PList xs) = (xs \<noteq> [])"
| "truthy (PDict d) = (d \<noteq> [])"

text \<open>\<open>a or b\<close>: the first operand when it is truthy, the second otherwise.\<close>

definition py_or :: "pyval \<Rightarrow> pyval \<Rightarrow> pyval" where
  "py_or a b = (if truthy a then a else b)"

text \<open>\<open>d.get(k)\<close>: \<open>None\<close> for a missing key.\<close>

definition dget :: "pydict \<Rightarrow> string \<Rightarrow> pyval" where
  "dget d k = (case map_of d k of None \<Rightarrow> PNone | Some v \<Rightarrow> v)"

text \<open>\<open>x is None\<close>.\<close>

definition is_none :: "pyval \<Rightarrow> bool" where
  "is_none v = (v = PNone)"

subsection \<open>Strings\<close>

definition lower_char :: "char \<Rightarrow> char" where
  "lower_char c =
     (case map_of (zip ''ABCDEFGHIJKLMNOPQRSTUVWXYZ'' ''abcdefghijklmnopqrstuvwxyz'') c of
        Some d \<Rightarrow> d | None \<Rightarrow> c)"

definition upper_char :: "char \<Rightarrow> char" where
  "upper_char c =
     (case map_of (zip ''abcdefghijklmnopqrstuvwxyz'' ''ABCDEFGHIJKLMNOPQRSTUVWXYZ'') c of
        Some d \<Rightarrow> d | None \<Rightarrow> c)"

definition lower :: "string \<Rightarrow> string" where
  "lower s = map lower_char s"

definition upper :: "string \<Rightarrow> string" where
  "upper s = map upper_char s"

definition is_space :: "char \<Rightarrow> bool" where
  "is_space c = (c \<in> set [CHR '' '', CHR 0x09, CHR 0x0A, CHR 0x0B, CHR 0x0C, CHR 0x0D])"

definition strip :: "string \<Rightarrow> string" where
  "strip s = rev (dropWhile is_space (rev (dropWhile is_space s)))"

text \<open>Decimal rendering of an integer, as \<open>str\<close> prints it.\<close>

fun digits :: "nat \<Rightarrow> string" where
  "digits n =
     (if n < 10 then [''0123456789'' ! n]
      else digits (n div 10) @ [''0123456789'' ! (n mod 10)])"

declare digits.simps [simp del]

definition show_int :: "int \<Rightarrow> string" where
  "show_int i = (if i < 0 then CHR ''-'' # digits (nat (- i)) else digits (nat i))"

text \<open>
  What the interpreter's library computes and this development does not spell out:
  \<open>float\<close> of a string (\<open>None\<close> when it raises \<open>ValueError\<close>) and \<open>str\<close> of a float,
  a list or a dict. Every theorem holds for all such functions.
\<close>

record pylib =
  float_of_str :: "string \<Rightarrow> rat option"
  repr_other :: "pyval \<Rightarrow> string"

fun py_str :: "pylib \<Rightarrow> pyval \<Rightarrow> string" where
  "py_str L (PStr s) = s"
| "py_str L (PInt i) = show_int i"
| "py_str L (PBool b) = (if b then ''True'' else ''False'')"
| "py_str L PNone = ''None''"
| "py_str L v = repr_other L v"

text \<open>\<open>float(x)\<close>: a string is parsed, a number converted, anything else is a \<open>TypeError\<close>.\<close>

fun py_float :: "pylib \<Rightarrow> pyval \<Rightarrow> pyerr + rat" where
  "py_float L (PBool b) = Inr (if b then 1 else 0)"
| "py_float L (PInt i) = Inr (of_int i)"
| "py_float L (PFloat r) = Inr r"
| "py_float L (PStr s) = (case float_of_str L s of None \<Rightarrow> Inl ValueError | Some r \<Rightarrow> Inr r)"
| "py_float L v = Inl TypeError"

subsection \<open>Integers from strings\<close>

text \<open>
  \<open>int(s, base)\<close> for base 10 and base 16: surrounding whitespace, a sign, for base 16 an
  optional \<open>0x\<close> prefix, then digits, single underscores allowed between digits.
  \<open>None\<close> stands for \<open>ValueError\<close>. The interpreter's limit on the length of a
  decimal literal is not modelled.
\<close>

definition digit_of :: "nat \<Rightarrow> char \<Rightarrow> nat option" where
  "digit_of base c =
     (case map_of (zip ''0123456789abcdefABCDEF''
                       [0, 1, 2, 3, 4, 5, 6, 7, 8, 9, 10, 11, 12, 13, 14, 15, 10, 11, 12, 13, 14, 15]) c of
        None \<Rightarrow> None
      | Some v \<Rightarrow> if v < base then Some v else None)"

fun parse_digits :: "nat \<Rightarrow> bool \<Rightarrow> nat \<Rightarrow> string \<Rightarrow> nat option" where
  "parse_digits base need acc [] = (if need then None else Some acc)"
| "parse_digits base need acc (c # cs) =
     (if c = CHR ''_'' then (if need then None else parse_digits base True acc cs)
      else (case digit_of base c of
              None \<Rightarrow> None
            | Some v \<Rightarrow> parse_digits base False (acc * base + v) cs))"

definition skip_prefix :: "nat \<Rightarrow> string \<Rightarrow> string" where
  "skip_prefix base s =
     (case s of
        z # x # r \<Rightarrow>
          if base = 16 \<and> z = CHR ''0'' \<and> (x = CHR ''x'' \<or> x = CHR ''X'')
          then (case r of u # r' \<Rightarrow> if u = CHR ''_'' then r' else r | [] \<Rightarrow> r)
          else s
      | _ \<Rightarrow> s)"

definition int_of_str :: "nat \<Rightarrow> string \<Rightarrow> int option" where
  "int_of_str base s =
     (let s1 = strip s;
          neg = (case s1 of c # _ \<Rightarrow> c = CHR ''-'' | [] \<Rightarrow> False);
          s2 = (case s1 of c # r \<Rightarrow> if c = CHR ''-'' \<or> c = CHR ''+'' then r else s1 | [] \<Rightarrow> s1)
      in case parse_digits base True 0 (skip_prefix base s2) of
           None \<Rightarrow> None
         | Some n \<Rightarrow> Some (if neg then - int n else int n))"

text \<open>\<open>int(x)\<close>: a float is truncated towards zero; \<open>None\<close> stands for any exception.\<close>

fun py_int :: "pyval \<Rightarrow> int option" where
  "py_int (PBool b) = Some (if b then 1 else 0)"
| "py_int (PInt i) = Some i"
| "py_int (PFloat r) = Some (if 0 \<le> r then \<lfloor>r\<rfloor> else \<lceil>r\<rceil>)"
| "py_int (PStr s) = int_of_str 10 s"
| "py_int v = None"

section \<open>fetch\_wallet\_data: normalising a raw trade\<close>

text \<open>\<open>extract_ts_seconds\<close>: the first truthy of three keys, milliseconds scaled down.\<close>

definition extract_ts_seconds :: "pydict \<Rightarrow> int option" where
  "extract_ts_seconds trade =
     (let tsv = py_or (py_or (dget trade ''timestamp'') (dget trade ''ts'')) (dget trade ''time'')
      in if is_none tsv then None
         else (case py_int tsv of
                 None \<Rightarrow> None
               | Some t \<Rightarrow> Some (if t > 2 * 10 ^ 10 then t div 1000 else t)))"

record normalized =
  market_id :: pyval
  market_title :: pyval
  outcome_id :: pyval
  outcome_label :: pyval
  price :: "rat option"
  size_n :: "rat option"
  ts :: "int option"
  user :: "string option"
  maker :: "string option"
  taker :: "string option"
  buyer :: "string option"
  seller :: "string option"
  side :: pyval
  raw :: pydict

text \<open>\<open>float(v) if v is not None else None\<close>.\<close>

definition opt_float :: "pylib \<Rightarrow> pyval \<Rightarrow> pyerr + rat option" where
  "opt_float L v =
     (if is_none v then Inr None
      else (case py_float L v of Inl e \<Rightarrow> Inl e | Inr r \<Rightarrow> Inr (Some r)))"

text \<open>\<open>str(v).lower() if v else None\<close>.\<close>

definition lower_or_none :: "pylib \<Rightarrow> pyval \<Rightarrow> string option" where
  "lower_or_none L v = (if truthy v then Some (lower (py_str L v)) else None)"

definition resolve_market_id :: "pydict \<Rightarrow> pyval" where
  "resolve_market_id t =
     py_or (py_or (py_or (py_or (dget t ''conditionId'') (dget t ''market''))
                         (dget t ''marketId''))
                  (dget t ''market_id''))
           (dget t ''eventId'')"

definition normalize_trade_record :: "pylib \<Rightarrow> pydict \<Rightarrow> pyerr + normalized" where
  "normalize_trade_record L t =
     (let mid = resolve_market_id t;
          title = py_or (py_or (py_or (dget t ''title'') (dget t ''marketTitle''))
                               (dget t ''marketName''))
                        (dget t ''label'');
          outcome_lbl = py_or (py_or (dget t ''outcome'') (dget t ''outcomeLabel'')) (dget t ''side'');
          oid = py_or (py_or (py_or (py_or (dget t ''outcomeToken'') (dget t ''outcomeId''))
                                    (dget t ''outcome_id''))
                             (dget t ''outcomeIndex''))
                      (case outcome_lbl of PStr s \<Rightarrow> PStr (upper s) | _ \<Rightarrow> PNone);
          price0 = dget t ''price'';
          size0 = py_or (py_or (dget t ''size'') (dget t ''quantity'')) (dget t ''amount'')
      in case opt_float L price0 of
           Inl e \<Rightarrow> Inl e
         | Inr pr \<Rightarrow>
             (case opt_float L size0 of
                Inl e \<Rightarrow> Inl e
              | Inr sz \<Rightarrow>
                  (let proxy = py_or (py_or (dget t ''proxyWallet'') (dget t ''wallet'')) (dget t ''user'');
                       mk = py_or (dget t ''maker'') (dget t ''makerAddress'');
                       tk = py_or (dget t ''taker'') (dget t ''takerAddress'');
                       sd0 = py_or (py_or (py_or (dget t ''side'') (dget t ''type''))
                                          (dget t ''action''))
                                   (dget t ''outcome'');
                       sd = (case sd0 of PStr s \<Rightarrow> PStr (lower s) | _ \<Rightarrow> sd0)
                   in Inr \<lparr> market_id = mid, market_title = title, outcome_id = oid,
                            outcome_label = outcome_lbl, price = pr, size_n = sz,
                            ts = extract_ts_seconds t,
                            user = lower_or_none L proxy,
                            maker = lower_or_none L mk,
                            taker = lower_or_none L tk,
                            buyer = lower_or_none L (dget t ''buyer''),
                            seller = lower_or_none L (dget t ''seller''),
                            side = sd, raw = t \<rparr>)))"

section \<open>fetch\_wallet\_data: the wallet's signed quantity\<close>

text \<open>Truth value of an optional string: \<open>None\<close> and \<open>""\<close> are false.\<close>

definition present :: "string option \<Rightarrow> bool" where
  "present x = (case x of None \<Rightarrow> False | Some s \<Rightarrow> s \<noteq> [])"

definition is_buy :: "pyval \<Rightarrow> bool" where
  "is_buy sd = (sd = PStr ''buy'' \<or> sd = PStr ''yes'')"

definition is_sell :: "pyval \<Rightarrow> bool" where
  "is_sell sd = (sd = PStr ''sell'' \<or> sd = PStr ''no'')"

text \<open>
  The three blocks of \<open>signed_quantity_for_wallet\<close>. The first always returns. The
  second and the third return a quantity (\<open>Some\<close>) or return nothing (\<open>None\<close>), and
  then control falls through to what follows; the function ends with \<open>return 0.0\<close>.
\<close>

definition proxy_quantity :: "normalized \<Rightarrow> string \<Rightarrow> rat \<Rightarrow> rat" where
  "proxy_quantity n wl sz =
     (if Some wl = user n then
        (if is_buy (side n) then sz
         else if is_sell (side n) then - sz
         else 0)
      else 0)"

definition buyer_seller_quantity :: "normalized \<Rightarrow> string \<Rightarrow> rat \<Rightarrow> rat option" where
  "buyer_seller_quantity n wl sz =
     (if present (buyer n) \<or> present (seller n) then
        (if Some wl = buyer n then Some sz
         else if Some wl = seller n then Some (- sz)
         else None)
      else None)"

definition maker_taker_quantity :: "normalized \<Rightarrow> string \<Rightarrow> rat \<Rightarrow> rat option" where
  "maker_taker_quantity n wl sz =
     (if (present (maker n) \<or> present (taker n)) \<and> truthy (side n) then
        (case (if is_buy (side n) then
                 (if Some wl = taker n then Some sz
                  else if Some wl = maker n then Some (- sz)
                  else None)
               else None) of
           Some q \<Rightarrow> Some q
         | None \<Rightarrow>
             (if is_sell (side n) then
                (if Some wl = taker n then Some (- sz)
                 else if Some wl = maker n then Some sz
                 else None)
              else None))
      else None)"

definition signed_quantity_for_wallet :: "normalized \<Rightarrow> string \<Rightarrow> rat" where
  "signed_quantity_for_wallet n wallet =
     (case size_n n of
        None \<Rightarrow> 0
      | Some sz \<Rightarrow>
          if sz = 0 then 0
          else
            (let wl = lower wallet in
             if present (user n) then proxy_quantity n wl sz
             else
               (case buyer_seller_quantity n wl sz of
                  Some q \<Rightarrow> q
                | None \<Rightarrow>
                    (case maker_taker_quantity n wl sz of
                       Some q \<Rightarrow> q
                     | None \<Rightarrow> 0))))"

section \<open>fetch\_wallet\_data: aggregation\<close>

record bucket =
  b_market_id :: string
  b_market_title :: pyval
  b_outcome_id :: string
  b_outcome_label :: pyval
  net_shares :: rat
  fills :: int
  avg_fill_price_sum :: rat

record position =
  p_market_id :: string
  p_market_title :: pyval
  p_outcome_id :: string
  p_outcome_label :: pyval
  p_net_shares :: rat
  p_fills :: int
  avg_fill_price :: rat

type_synonym buckets = "((string \<times> string) \<times> bucket) list"

text \<open>
  One pass of the loop body of \<open>aggregate_delta_for_wallet\<close>. The dict of buckets keeps
  insertion order, so it is an association list: a new key goes to the end, an existing
  key keeps its place.
\<close>

definition aggregate_step :: "pylib \<Rightarrow> string \<Rightarrow> buckets \<Rightarrow> pydict \<Rightarrow> pyerr + buckets" where
  "aggregate_step L wallet bs t =
     (case normalize_trade_record L t of
        Inl e \<Rightarrow> Inl e
      | Inr n \<Rightarrow>
          if \<not> truthy (market_id n) \<or> \<not> truthy (outcome_id n) then Inr bs
          else
            (let dq = signed_quantity_for_wallet n wallet in
             if dq = 0 then Inr bs
             else
               (let key = (py_str L (market_id n), py_str L (outcome_id n));
                    b = (case map_of bs key of
                           Some b0 \<Rightarrow> b0
                         | None \<Rightarrow>
                             \<lparr> b_market_id = py_str L (market_id n),
                               b_market_title = market_title n,
                               b_outcome_id = py_str L (outcome_id n),
                               b_outcome_label = outcome_label n,
                               net_shares = 0, fills = 0, avg_fill_price_sum = 0 \<rparr>);
                    b1 = b\<lparr> net_shares := net_shares b + dq \<rparr>;
                    b2 = (case price n of
                            Some p \<Rightarrow> b1\<lparr> avg_fill_price_sum := avg_fill_price_sum b1 + p \<rparr>
                          | None \<Rightarrow> b1)
                in Inr (AList.update key (b2\<lparr> fills := fills b2 + 1 \<rparr>) bs))))"

fun aggregate_loop :: "pylib \<Rightarrow> string \<Rightarrow> buckets \<Rightarrow> pydict list \<Rightarrow> pyerr + buckets" where
  "aggregate_loop L wallet bs [] = Inr bs"
| "aggregate_loop L wallet bs (t # trades) =
     (case aggregate_step L wallet bs t of
        Inl e \<Rightarrow> Inl e
      | Inr bs' \<Rightarrow> aggregate_loop L wallet bs' trades)"

definition finalize :: "bucket \<Rightarrow> position" where
  "finalize rec =
     (let n = max (fills rec) 1
      in \<lparr> p_market_id = b_market_id rec, p_market_title = b_market_title rec,
           p_outcome_id = b_outcome_id rec, p_outcome_label = b_outcome_label rec,
           p_net_shares = net_shares rec, p_fills = fills rec,
           avg_fill_price = avg_fill_price_sum rec / of_int n \<rparr>)"

definition aggregate_delta_for_wallet :: "pylib \<Rightarrow> pydict list \<Rightarrow> string \<Rightarrow> pyerr + position list" where
  "aggregate_delta_for_wallet L trades wallet =
     (case aggregate_loop L wallet [] trades of
        Inl e \<Rightarrow> Inl e
      | Inr bs \<Rightarrow> Inr (map (\<lambda>(k, rec). finalize rec) bs))"

section \<open>Day windows\<close>

text \<open>
  A local midnight is identified by the proleptic Gregorian ordinal of its day
  (day 1 is 0001-01-01), the range of \<open>datetime\<close>: ordinals 1 to 3652059
  (9999-12-31). Adding a \<open>timedelta\<close> keeps the wall clock and the zone, and two
  datetimes of the same zone compare by wall clock, so the loop works on ordinals.
\<close>

definition dec_value :: "string \<Rightarrow> nat option" where
  "dec_value s =
     (if s = [] then None
      else fold (\<lambda>c acc. case (acc, digit_of 10 c) of
                            (Some a, Some v) \<Rightarrow> Some (a * 10 + v)
                          | _ \<Rightarrow> None) s (Some 0))"

definition is_leap :: "nat \<Rightarrow> bool" where
  "is_leap y = (y mod 4 = 0 \<and> (y mod 100 \<noteq> 0 \<or> y mod 400 = 0))"

definition days_in_month :: "nat \<Rightarrow> nat \<Rightarrow> nat" where
  "days_in_month y m =
     (if m = 2 then (if is_leap y then 29 else 28)
      else if m = 4 \<or> m = 6 \<or> m = 9 \<or> m = 11 then 30 else 31)"

definition days_before_year :: "nat \<Rightarrow> nat" where
  "days_before_year y = (let y1 = y - 1 in y1 * 365 + y1 div 4 - y1 div 100 + y1 div 400)"

definition days_before_month :: "nat \<Rightarrow> nat \<Rightarrow> nat" where
  "days_before_month y m =
     [0, 0, 31, 59, 90, 120, 151, 181, 212, 243, 273, 304, 334] ! m
     + (if m > 2 \<and> is_leap y then 1 else 0)"

definition ymd2ord :: "nat \<Rightarrow> nat \<Rightarrow> nat \<Rightarrow> int" where
  "ymd2ord y m d = int (days_before_year y + days_before_month y m + d)"

text \<open>
  \<open>datetime.strptime(d, "%Y-%m-%d")\<close>: four digits, a dash, a month of one or two
  digits, a dash, a day of one or two digits (or a space and one digit), nothing else;
  then the date must exist. \<open>None\<close> stands for \<open>ValueError\<close>.
\<close>

definition strptime_ymd :: "string \<Rightarrow> (nat \<times> nat \<times> nat) option" where
  "strptime_ymd s =
     (let ys = take 4 s; r1 = drop 4 s in
      case r1 of
        [] \<Rightarrow> None
      | dash1 # r2 \<Rightarrow>
          (let ms = takeWhile (\<lambda>c. c \<noteq> CHR ''-'') r2;
               r3 = dropWhile (\<lambda>c. c \<noteq> CHR ''-'') r2 in
           case r3 of
             [] \<Rightarrow> None
           | dash2 # ds0 \<Rightarrow>
               (let ds = (case ds0 of
                            [sp, c] \<Rightarrow> if sp = CHR '' '' \<and> c \<noteq> CHR ''0'' then [c] else ds0
                          | _ \<Rightarrow> ds0) in
                if length ys \<noteq> 4 \<or> dash1 \<noteq> CHR ''-'' \<or> length ms > 2 \<or> length ds > 2 then None
                else
                  (case (dec_value ys, dec_value ms, dec_value ds) of
                     (Some y, Some m, Some d) \<Rightarrow>
                       if 1 \<le> y \<and> 1 \<le> m \<and> m \<le> 12 \<and> 1 \<le> d \<and> d \<le> days_in_month y m
                       then Some (y, m, d) else None
                   | _ \<Rightarrow> None))))"

definition parse_date_local :: "string \<Rightarrow> pyerr + int" where
  "parse_date_local d =
     (case strptime_ymd d of
        None \<Rightarrow> Inl ValueError
      | Some (y, m, dd) \<Rightarrow> Inr (ymd2ord y m dd))"

definition MAXORDINAL :: int where
  "MAXORDINAL = 3652059"

text \<open>\<open>dt + timedelta(days=1)\<close>: \<open>OverflowError\<close> beyond the last day.\<close>

definition add_day :: "int \<Rightarrow> pyerr + int" where
  "add_day d = (if d + 1 > MAXORDINAL then Inl OverflowError else Inr (d + 1))"

text \<open>
  \<open>int(dt.astimezone(timezone.utc).timestamp())\<close> for the local midnight of day \<open>d\<close>.
  The zone is a parameter: \<open>utcoffset d\<close> is its offset from UTC in seconds at that
  midnight. The conversion subtracts the offset and raises \<open>OverflowError\<close> when the UTC
  datetime leaves the range of \<open>datetime\<close>; the timestamp counts from 1970-01-01,
  day 719163.
\<close>

definition utc_timestamp :: "(int \<Rightarrow> int) \<Rightarrow> int \<Rightarrow> pyerr + int" where
  "utc_timestamp utcoffset d =
     (let u = (d - 1) * 86400 - utcoffset d in
      if u < 0 \<or> u \<ge> MAXORDINAL * 86400 then Inl OverflowError
      else Inr (u - 719162 * 86400))"

function windows_loop ::
  "(int \<Rightarrow> int) \<Rightarrow> int \<Rightarrow> int \<Rightarrow> (int \<times> int) list \<Rightarrow> pyerr + (int \<times> int) list" where
  "windows_loop utcoffset cur end_local_excl out =
     (if cur < end_local_excl then
        (case add_day cur of
           Inl e \<Rightarrow> Inl e
         | Inr c1 \<Rightarrow>
             (let nxt = min c1 end_local_excl in
              case utc_timestamp utcoffset cur of
                Inl e \<Rightarrow> Inl e
              | Inr start_ts_utc \<Rightarrow>
                  (case utc_timestamp utcoffset nxt of
                     Inl e \<Rightarrow> Inl e
                   | Inr end_ts_utc \<Rightarrow>
                       windows_loop utcoffset nxt end_local_excl
                         (out @ [(start_ts_utc, end_ts_utc)]))))
      else Inr out)"
  by pat_completeness auto
termination
  by (relation "measure (\<lambda>(utcoffset, cur, end_local_excl, out). nat (end_local_excl - cur))")
     (auto simp: add_day_def split: if_splits)

declare windows_loop.simps [simp del]

definition day_windows_local_to_utc ::
  "(int \<Rightarrow> int) \<Rightarrow> string \<Rightarrow> string \<Rightarrow> pyerr + (int \<times> int) list" where
  "day_windows_local_to_utc utcoffset from_date to_date =
     (case parse_date_local from_date of
        Inl e \<Rightarrow> Inl e
      | Inr start_local \<Rightarrow>
          (case parse_date_local to_date of
             Inl e \<Rightarrow> Inl e
           | Inr to_local \<Rightarrow>
               (case add_day to_local of
                  Inl e \<Rightarrow> Inl e
                | Inr end_local_excl \<Rightarrow> windows_loop utcoffset start_local end_local_excl [])))"

section \<open>fetch\_fee\_data\<close>

text \<open>
  \<open>hex_to_int\<close>: \<open>None\<close> stays \<open>None\<close>; otherwise \<open>str(v)\<close> is read in base 16 when
  it starts with \<open>0x\<close> or \<open>0X\<close>, in base 10 otherwise, and any exception gives \<open>None\<close>.
  For a value that is not a string, \<open>str\<close> of an integer is its decimal rendering, which
  reads back as the integer, and \<open>str\<close> of a boolean, float, list or dict is never an
  integer literal.
\<close>

definition starts_with_0x :: "string \<Rightarrow> bool" where
  "starts_with_0x s = (take 2 s = ''0x'' \<or> take 2 s = ''0X'')"

fun hex_to_int :: "pyval \<Rightarrow> int option" where
  "hex_to_int PNone = None"
| "hex_to_int (PStr s) = (if starts_with_0x s then int_of_str 16 s else int_of_str 10 s)"
| "hex_to_int (PInt i) = Some i"
| "hex_to_int v = None"

definition opt_int :: "int option \<Rightarrow> pyval" where
  "opt_int x = (case x of None \<Rightarrow> PNone | Some i \<Rightarrow> PInt i)"

definition opt_num :: "rat option \<Rightarrow> pyval" where
  "opt_num x = (case x of None \<Rightarrow> PNone | Some r \<Rightarrow> PFloat r)"

definition wei_to_matic :: "int option \<Rightarrow> pyval" where
  "wei_to_matic wei = (case wei of None \<Rightarrow> PNone | Some w \<Rightarrow> PFloat (of_int w / 10 ^ 18))"

text \<open>\<open>safe_float\<close>: \<open>None\<close> for \<open>None\<close>, for \<open>""\<close> and for anything \<open>float\<close> rejects.\<close>

definition safe_float :: "pylib \<Rightarrow> pyval \<Rightarrow> rat option" where
  "safe_float L x =
     (if is_none x \<or> x = PStr [] then None
      else (case py_float L x of Inl e \<Rightarrow> None | Inr r \<Rightarrow> Some r))"

text \<open>
  The two Etherscan requests are the outside world. A request either raises (the
  exception is represented by its message, the only thing a handler reads) or returns the
  \<open>result\<close> member of the response. The answer may depend on everything requested
  before, so the world is a function of the request log, and the log is part of the state.
\<close>

datatype call = GetTxReceipt pyval | GetTxData pyval

type_synonym world = "call list \<Rightarrow> call \<Rightarrow> string + pyval"

definition type_name :: "pyval \<Rightarrow> string" where
  "type_name v =
     (case v of PNone \<Rightarrow> ''NoneType'' | PBool b \<Rightarrow> ''bool'' | PInt i \<Rightarrow> ''int''
      | PFloat r \<Rightarrow> ''float'' | PStr s \<Rightarrow> ''str'' | PList xs \<Rightarrow> ''list'' | PDict d \<Rightarrow> ''dict'')"

text \<open>The message of the \<open>AttributeError\<close> of \<open>v.get\<close> on a value that is no dict.\<close>

definition no_get_attr :: "pyval \<Rightarrow> string" where
  "no_get_attr v = [CHR 0x27] @ type_name v @ [CHR 0x27] @ '' object has no attribute ''
                   @ [CHR 0x27] @ ''get'' @ [CHR 0x27]"

definition no_receipt :: pydict where
  "no_receipt = [(''gasUsed'', PNone), (''effectiveGasPrice'', PNone), (''gasPrice'', PNone),
                 (''feeWei'', PNone), (''feeMATIC'', PNone), (''note'', PStr ''no_receipt'')]"

text \<open>The two \<open>return\<close> statements that end \<open>compute_fee\<close>.\<close>

definition fee_record ::
  "int option \<Rightarrow> int option \<Rightarrow> int option \<Rightarrow> int option \<Rightarrow> string \<Rightarrow> pydict" where
  "fee_record gas_used eff_price gas_price_legacy used_price note =
     (case (gas_used, used_price) of
        (Some g, Some p) \<Rightarrow>
          (let fee_wei = g * p in
           [(''gasUsed'', PInt g), (''effectiveGasPrice'', opt_int eff_price),
            (''gasPrice'', (case eff_price of None \<Rightarrow> opt_int gas_price_legacy | Some e \<Rightarrow> PInt e)),
            (''feeWei'', PInt fee_wei), (''feeMATIC'', wei_to_matic (Some fee_wei)),
            (''note'', PStr note)])
      | _ \<Rightarrow>
          [(''gasUsed'', opt_int gas_used), (''effectiveGasPrice'', opt_int eff_price),
           (''gasPrice'', opt_int gas_price_legacy), (''feeWei'', PNone),
           (''feeMATIC'', PNone), (''note'', PStr note)])"

text \<open>\<open>hex_to_int(tx.get("gasPrice")) if tx else None\<close>.\<close>

definition legacy_gas_price :: "pyval \<Rightarrow> string + int option" where
  "legacy_gas_price tx =
     (if truthy tx then
        (case tx of PDict d \<Rightarrow> Inr (hex_to_int (dget d ''gasPrice'')) | _ \<Rightarrow> Inl (no_get_attr tx))
      else Inr None)"

definition compute_fee :: "world \<Rightarrow> call list \<Rightarrow> pyval \<Rightarrow> (string + pydict) \<times> call list" where
  "compute_fee env hist txhash =
     (let hist1 = hist @ [GetTxReceipt txhash] in
      case env hist (GetTxReceipt txhash) of
        Inl e \<Rightarrow> (Inl e, hist1)
      | Inr receipt \<Rightarrow>
          if \<not> truthy receipt then (Inr no_receipt, hist1)
          else
            (case receipt of
               PDict r \<Rightarrow>
                 (let gas_used = hex_to_int (dget r ''gasUsed'');
                      eff_price = hex_to_int (dget r ''effectiveGasPrice'') in
                  case eff_price of
                    Some p \<Rightarrow>
                      (Inr (fee_record gas_used eff_price None eff_price ''effectiveGasPrice''), hist1)
                  | None \<Rightarrow>
                      (let hist2 = hist1 @ [GetTxData txhash] in
                       case env hist1 (GetTxData txhash) of
                         Inl e \<Rightarrow> (Inl e, hist2)
                       | Inr tx \<Rightarrow>
                           (case legacy_gas_price tx of
                              Inl e \<Rightarrow> (Inl e, hist2)
                            | Inr gas_price_legacy \<Rightarrow>
                                (let note = (if gas_price_legacy \<noteq> None \<and> gas_price_legacy \<noteq> Some 0
                                             then ''fallback_gasPrice'' else ''no_price_found'') in
                                 (Inr (fee_record gas_used eff_price gas_price_legacy
                                         gas_price_legacy note), hist2)))))
             | _ \<Rightarrow> (Inl (no_get_attr receipt), hist1)))"

subsection \<open>The loop of main\<close>

text \<open>
  Keys of \<open>tx_cache\<close>: a list or a dict is unhashable (\<open>TypeError\<close>); numbers and
  booleans are the same key when they are equal as numbers.
\<close>

fun hashable :: "pyval \<Rightarrow> bool" where
  "hashable (PList xs) = False"
| "hashable (PDict d) = False"
| "hashable v = True"

fun num_val :: "pyval \<Rightarrow> rat option" where
  "num_val (PBool b) = Some (if b then 1 else 0)"
| "num_val (PInt i) = Some (of_int i)"
| "num_val (PFloat r) = Some r"
| "num_val v = None"

definition py_eq :: "pyval \<Rightarrow> pyval \<Rightarrow> bool" where
  "py_eq a b =
     (case (num_val a, num_val b) of
        (Some x, Some y) \<Rightarrow> x = y
      | (None, None) \<Rightarrow> a = b
      | _ \<Rightarrow> False)"

type_synonym cache = "(pyval \<times> pydict) list"

fun cache_get :: "cache \<Rightarrow> pyval \<Rightarrow> pydict option" where
  "cache_get [] k = None"
| "cache_get ((k', v) # c) k = (if py_eq k' k then Some v else cache_get c k)"

fun cache_put :: "cache \<Rightarrow> pyval \<Rightarrow> pydict \<Rightarrow> cache" where
  "cache_put [] k v = [(k, v)]"
| "cache_put ((k', v') # c) k v = (if py_eq k' k then (k', v) # c else (k', v') # cache_put c k v)"

text \<open>\<open>row.update({...})\<close>.\<close>

definition dict_update :: "pydict \<Rightarrow> pydict \<Rightarrow> pydict" where
  "dict_update row kvs = fold (\<lambda>(k, v) d. AList.update k v d) kvs row"

record main_state =
  enriched :: "pydict list"
  tx_cache :: cache
  total_matic :: rat
  total_usdc :: rat
  tx_count :: int
  calls :: "call list"

definition tx_of :: "pydict \<Rightarrow> pyval" where
  "tx_of m = py_or (py_or (dget m ''transactionHash'') (dget m ''txHash'')) (dget m ''transaction_hash'')"

text \<open>The \<open>try\<close> block of main: any exception of \<open>compute_fee\<close> becomes a record.\<close>

definition fee_or_error :: "world \<Rightarrow> call list \<Rightarrow> pyval \<Rightarrow> pydict \<times> call list" where
  "fee_or_error env hist tx =
     (case compute_fee env hist tx of
        (Inl e, hist') \<Rightarrow> ([(''feeMATIC'', PNone), (''note'', PStr (''error:'' @ e))], hist')
      | (Inr fee, hist') \<Rightarrow> (fee, hist'))"

text \<open>
  The end of the loop body: the row gets the fee columns (a fee in USDC, and what is left
  of \<open>usdcSize\<close> after it), and the totals count every row that has a fee.
\<close>

definition enrich :: "pylib \<Rightarrow> rat \<Rightarrow> pydict \<Rightarrow> pydict \<Rightarrow> pydict" where
  "enrich L matic_price row fee =
     (let fee_matic = safe_float L (dget fee ''feeMATIC'');
          fee_usdc = (case fee_matic of None \<Rightarrow> None | Some f \<Rightarrow> Some (f * matic_price));
          usdc_size = safe_float L (dget row ''usdcSize'');
          net_after = (case (usdc_size, fee_usdc) of
                         (Some u, Some f) \<Rightarrow> if u \<noteq> 0 \<and> f \<noteq> 0 then Some (u - f) else None
                       | _ \<Rightarrow> None)
      in dict_update row
           [(''feeMATIC'', opt_num fee_matic), (''feeUSDC'', opt_num fee_usdc),
            (''netUSDC_after_fee'', opt_num net_after),
            (''maticPriceUSDC'', PFloat matic_price),
            (''fee_note'', dget fee ''note'')])"

definition add_totals :: "pylib \<Rightarrow> rat \<Rightarrow> pydict \<Rightarrow> main_state \<Rightarrow> main_state" where
  "add_totals L matic_price fee s =
     (case safe_float L (dget fee ''feeMATIC'') of
        None \<Rightarrow> s
      | Some fee_matic \<Rightarrow>
          s\<lparr> total_matic := total_matic s + fee_matic,
             total_usdc := total_usdc s + fee_matic * matic_price,
             tx_count := tx_count s + 1 \<rparr>)"

definition main_step :: "world \<Rightarrow> pylib \<Rightarrow> rat \<Rightarrow> main_state \<Rightarrow> pydict \<Rightarrow> pyerr + main_state" where
  "main_step env L matic_price s m =
     (let tx = tx_of m; row = m in
      if \<not> truthy tx then
        Inr (s\<lparr> enriched := enriched s @
                 [dict_update row [(''feeMATIC'', PNone), (''feeUSDC'', PNone),
                                   (''netUSDC_after_fee'', PNone), (''fee_note'', PStr ''no_txhash'')]] \<rparr>)
      else if \<not> hashable tx then Inl TypeError
      else
        (let (fee, cache', calls') =
               (case cache_get (tx_cache s) tx of
                  Some f \<Rightarrow> (f, tx_cache s, calls s)
                | None \<Rightarrow>
                    (let (f, hist') = fee_or_error env (calls s) tx
                     in (f, cache_put (tx_cache s) tx f, hist')))
         in Inr (add_totals L matic_price fee
                   (s\<lparr> enriched := enriched s @ [enrich L matic_price row fee],
                       tx_cache := cache', calls := calls' \<rparr>))))"

fun main_loop :: "world \<Rightarrow> pylib \<Rightarrow> rat \<Rightarrow> main_state \<Rightarrow> pydict list \<Rightarrow> pyerr + main_state" where
  "main_loop env L matic_price s [] = Inr s"
| "main_loop env L matic_price s (m # merges) =
     (case main_step env L matic_price s m of
        Inl e \<Rightarrow> Inl e
      | Inr s' \<Rightarrow> main_loop env L matic_price s' merges)"

definition init_state :: main_state where
  "init_state = \<lparr> enriched = [], tx_cache = [], total_matic = 0, total_usdc = 0,
                   tx_count = 0, calls = [] \<rparr>"

definition main :: "world \<Rightarrow> pylib \<Rightarrow> rat \<Rightarrow> pydict list \<Rightarrow> pyerr + main_state" where
  "main env L matic_price merges = main_loop env L matic_price init_state merges"

text \<open>The three fee columns of an enriched row, and what a fee record puts there.\<close>

definition fee_fields :: "pydict \<Rightarrow> pyval \<times> pyval \<times> pyval" where
  "fee_fields row = (dget row ''feeMATIC'', dget row ''feeUSDC'', dget row ''fee_note'')"

definition attached :: "pylib \<Rightarrow> rat \<Rightarrow> pydict \<Rightarrow> pyval \<times> pyval \<times> pyval" where
  "attached L matic_price fee =
     (let fee_matic = safe_float L (dget fee ''feeMATIC'') in
      (opt_num fee_matic,
       opt_num (case fee_matic of None \<Rightarrow> None | Some f \<Rightarrow> Some (f * matic_price)),
       dget fee ''note''))"

section \<open>The specification's wording of field resolution\<close>

definition market_id_keys :: "string list" where
  "market_id_keys = [''conditionId'', ''market'', ''marketId'', ''market_id'', ''eventId'']"

text \<open>The first non-null value among the keys, in order (the specification's words).\<close>

fun first_non_null :: "pydict \<Rightarrow> string list \<Rightarrow> pyval" where
  "first_non_null t [] = PNone"
| "first_non_null t (k # ks) = (if dget t k \<noteq> PNone then dget t k else first_non_null t ks)"

text \<open>The first truthy value among the keys, in order; the value of the last key when none is.\<close>

fun first_truthy_or_last :: "pydict \<Rightarrow> string list \<Rightarrow> pyval" where
  "first_truthy_or_last t [] = PNone"
| "first_truthy_or_last t [k] = dget t k"
| "first_truthy_or_last t (k # ks) =
     (if truthy (dget t k) then dget t k else first_truthy_or_last t ks)"

section \<open>Sample inputs\<close>

text \<open>A library instance that reads integer literals as floats and prints a fixed text.\<close>

definition sample_lib :: pylib where
  "sample_lib = \<lparr> float_of_str = (\<lambda>s. map_option rat_of_int (int_of_str 10 s)),
                   repr_other = (\<lambda>v. ''<object>'') \<rparr>"

definition trade1 :: pydict where
  "trade1 = [(''conditionId'', PStr ''M1''), (''outcome'', PStr ''O1''), (''user'', PStr ''0xw''),
             (''side'', PStr ''buy''), (''size'', PInt 10), (''price'', PFloat (2 / 5))]"

definition trade2 :: pydict where
  "trade2 = [(''conditionId'', PStr ''M1''), (''outcome'', PStr ''O1''), (''user'', PStr ''0xw''),
             (''side'', PStr ''sell''), (''size'', PInt 4), (''price'', PFloat (1 / 2))]"

definition norm1 :: normalized where
  "norm1 = \<lparr> market_id = PStr ''M1'', market_title = PNone, outcome_id = PStr ''O1'',
             outcome_label = PStr ''O1'', price = Some (2 / 5), size_n = Some 10, ts = None,
             user = Some ''0xw'', maker = None, taker = None, buyer = None, seller = None,
             side = PStr ''buy'', raw = trade1 \<rparr>"

definition norm2 :: normalized where
  "norm2 = \<lparr> market_id = PStr ''M1'', market_title = PNone, outcome_id = PStr ''O1'',
             outcome_label = PStr ''O1'', price = Some (1 / 2), size_n = Some 4, ts = None,
             user = Some ''0xw'', maker = None, taker = None, buyer = None, seller = None,
             side = PStr ''sell'', raw = trade2 \<rparr>"

text \<open>A trade seen through the proxy wallet that also names a maker and a taker.\<close>

definition role_trade :: pydict where
  "role_trade = [(''conditionId'', PStr ''M1''), (''outcome'', PStr ''O1''), (''user'', PStr ''0xA''),
                 (''side'', PStr ''SELL''), (''maker'', PStr ''0xB''), (''taker'', PStr ''0xA''),
                 (''size'', PInt 7)]"

definition role_norm :: normalized where
  "role_norm = \<lparr> market_id = PStr ''M1'', market_title = PNone, outcome_id = PStr ''O1'',
                 outcome_label = PStr ''O1'', price = None, size_n = Some 7, ts = None,
                 user = Some ''0xa'', maker = Some ''0xb'', taker = Some ''0xa'', buyer = None,
                 seller = None, side = PStr ''sell'', raw = role_trade \<rparr>"

text \<open>A trade that names its seller (the maker) and its taker, and no buyer.\<close>

definition seller_trade :: pydict where
  "seller_trade = [(''conditionId'', PStr ''M1''), (''outcome'', PStr ''Yes''), (''seller'', PStr ''0xS''),
                   (''maker'', PStr ''0xS''), (''taker'', PStr ''0xW''), (''side'', PStr ''BUY''),
                   (''size'', PInt 3), (''price'', PFloat (1 / 2))]"

definition seller_norm :: normalized where
  "seller_norm = \<lparr> market_id = PStr ''M1'', market_title = PNone, outcome_id = PStr ''YES'',
                   outcome_label = PStr ''Yes'', price = Some (1 / 2), size_n = Some 3, ts = None,
                   user = None, maker = Some ''0xs'', taker = Some ''0xw'', buyer = None,
                   seller = Some ''0xs'', side = PStr ''buy'', raw = seller_trade \<rparr>"

text \<open>A record whose \<open>market\<close> is the empty string.\<close>

definition empty_market_trade :: pydict where
  "empty_market_trade = [(''market'', PStr []), (''marketId'', PStr ''M2'')]"

text \<open>A zone one hour east of UTC all year.\<close>

definition plus_one_hour :: "int \<Rightarrow> int" where
  "plus_one_hour d = 3600"

text \<open>
  Worlds: one whose receipts carry no effective gas price and whose transactions carry the
  given gas price; one where every request fails; one where the receipt arrives and the
  transaction request fails; one that answers the first request only.
\<close>

definition legacy_world :: "string \<Rightarrow> world" where
  "legacy_world gp hist c =
     (case c of
        GetTxReceipt h \<Rightarrow> Inr (PDict [(''gasUsed'', PStr ''0x5208'')])
      | GetTxData h \<Rightarrow> Inr (PDict [(''gasPrice'', PStr gp)]))"

definition failing_world :: world where
  "failing_world hist c = Inl ''timed out''"

definition half_world :: world where
  "half_world hist c =
     (case c of
        GetTxReceipt h \<Rightarrow> Inr (PDict [(''gasUsed'', PStr ''0x5208'')])
      | GetTxData h \<Rightarrow> Inl ''timed out'')"

definition once_world :: world where
  "once_world hist c =
     (if hist = [] then Inr (PDict [(''gasUsed'', PStr ''0x5208''), (''effectiveGasPrice'', PStr ''0x5'')])
      else Inl ''rate limit'')"

definition merge1 :: pydict where
  "merge1 = [(''transactionHash'', PStr ''0xabc''), (''usdcSize'', PInt 10)]"

definition merge2 :: pydict where
  "merge2 = [(''transactionHash'', PStr ''0xabc''), (''usdcSize'', PInt 20)]"

section \<open>Evaluation lemmas\<close>

lemmas normalize_defs =
  normalize_trade_record_def resolve_market_id_def dget_def py_or_def opt_float_def is_none_def
  lower_or_none_def upper_def upper_char_def lower_def lower_char_def extract_ts_seconds_def Let_def

lemma normalize_trade1: "normalize_trade_record L trade1 = Inr norm1"
  by (simp add: normalize_defs trade1_def norm1_def)

lemma normalize_trade2: "normalize_trade_record L trade2 = Inr norm2"
  by (simp add: normalize_defs trade2_def norm2_def)

lemma normalize_role_trade: "normalize_trade_record L role_trade = Inr role_norm"
  by (simp add: normalize_defs role_trade_def role_norm_def)

lemma normalize_seller_trade: "normalize_trade_record L seller_trade = Inr seller_norm"
  by (simp add: normalize_defs seller_trade_def seller_norm_def)

lemma lower_wallets: "lower ''0xW'' = ''0xw''" "lower ''0xA'' = ''0xa''" "lower ''0xB'' = ''0xb''"
  by (simp_all add: lower_def lower_char_def)

lemma quantity_norm1: "signed_quantity_for_wallet norm1 ''0xW'' = 10"
  by (simp add: signed_quantity_for_wallet_def proxy_quantity_def norm1_def present_def
        is_buy_def lower_wallets)

lemma quantity_norm2: "signed_quantity_for_wallet norm2 ''0xW'' = - 4"
  by (simp add: signed_quantity_for_wallet_def proxy_quantity_def norm2_def present_def
        is_buy_def is_sell_def lower_wallets)

lemma step_trade1:
  "aggregate_step L ''0xW'' [] trade1 =
     Inr [((''M1'', ''O1''),
           \<lparr> b_market_id = ''M1'', b_market_title = PNone, b_outcome_id = ''O1'',
             b_outcome_label = PStr ''O1'', net_shares = 10, fills = 1,
             avg_fill_price_sum = 2 / 5 \<rparr>)]"
  by (simp add: aggregate_step_def normalize_trade1 quantity_norm1) (simp add: norm1_def)

lemma step_trade2:
  "aggregate_step L ''0xW''
     [((''M1'', ''O1''),
       \<lparr> b_market_id = ''M1'', b_market_title = PNone, b_outcome_id = ''O1'',
         b_outcome_label = PStr ''O1'', net_shares = 10, fills = 1,
         avg_fill_price_sum = 2 / 5 \<rparr>)] trade2 =
     Inr [((''M1'', ''O1''),
           \<lparr> b_market_id = ''M1'', b_market_title = PNone, b_outcome_id = ''O1'',
             b_outcome_label = PStr ''O1'', net_shares = 6, fills = 2,
             avg_fill_price_sum = 9 / 10 \<rparr>)]"
  by (simp add: aggregate_step_def normalize_trade2 quantity_norm2) (simp add: norm2_def)

lemma loop_two_trades:
  "aggregate_loop L ''0xW'' [] [trade1, trade2] =
     Inr [((''M1'', ''O1''),
           \<lparr> b_market_id = ''M1'', b_market_title = PNone, b_outcome_id = ''O1'',
             b_outcome_label = PStr ''O1'', net_shares = 6, fills = 2,
             avg_fill_price_sum = 9 / 10 \<rparr>)]"
  by (simp add: step_trade1 step_trade2)

section \<open>The end-to-end scenario\<close>

text \<open>
  Claim C1. Two raw trades for market M1 and outcome O1, a buy of 10 at 0.4 and a sell of
  4 at 0.5, both with user 0xw: aggregating for the wallet 0xW gives exactly one position,
  for (M1, O1), with net shares 6, two fills and an average fill price of 0.45.
\<close>

theorem end_to_end_scenario:
  "map_sum id (map fst) (aggregate_loop L ''0xW'' [] [trade1, trade2]) = Inr [(''M1'', ''O1'')]
   \<and> aggregate_delta_for_wallet L [trade1, trade2] ''0xW'' =
       Inr [\<lparr> p_market_id = ''M1'', p_market_title = PNone, p_outcome_id = ''O1'',
              p_outcome_label = PStr ''O1'', p_net_shares = 6, p_fills = 2,
              avg_fill_price = 9 / 20 \<rparr>]"
  by (simp add: aggregate_delta_for_wallet_def loop_two_trades finalize_def
        del: aggregate_loop.simps)

section \<open>The wallet's role\<close>

lemma digits_nonempty: "digits n \<noteq> []"
  by (subst digits.simps) simp

lemma py_str_nonempty:
  assumes "truthy v" and "\<forall>w. repr_other L w \<noteq> []"
  shows "py_str L v \<noteq> []"
  using assms by (cases v) (auto simp: show_int_def digits_nonempty)

text \<open>
  In a normalised trade the user is \<open>None\<close> or a non-empty string (\<open>str\<close> of a truthy
  value is never empty), so "the user field is present" and \<open>if user\<close> agree.
\<close>

lemma normalized_user_present:
  assumes "normalize_trade_record L t = Inr n" and "\<forall>w. repr_other L w \<noteq> []"
  shows "user n = None \<or> present (user n)"
proof -
  have "lower_or_none L v = None \<or> present (lower_or_none L v)" for v
    using py_str_nonempty [OF _ assms(2), of v]
    by (simp add: lower_or_none_def present_def lower_def)
  moreover have "\<exists>v. user n = lower_or_none L v"
    using assms(1) by (auto simp: normalize_trade_record_def Let_def split: sum.splits)
  ultimately show ?thesis by metis
qed

text \<open>
  Claim C2. For a trade whose user field is present and whose size is not zero, the signed
  quantity is the size when the lower-cased wallet is the user and the side is buy or yes,
  minus the size when it is the user and the side is sell or no, and zero otherwise; the
  buyer, seller, maker and taker fields play no part. In particular user 0xa, side sell,
  maker 0xb, taker 0xa gives minus the size for the wallet 0xA.
\<close>

theorem proxy_wallet_precedence:
  assumes "present (user n)" and "size_n n = Some sz" and "sz \<noteq> 0"
  shows "signed_quantity_for_wallet n wallet =
           (if Some (lower wallet) = user n \<and> is_buy (side n) then sz
            else if Some (lower wallet) = user n \<and> is_sell (side n) then - sz
            else 0)
         \<and> (user n = Some ''0xa'' \<and> side n = PStr ''sell'' \<and> maker n = Some ''0xb''
              \<and> taker n = Some ''0xa''
            \<longrightarrow> signed_quantity_for_wallet n ''0xA'' = - sz)"
proof -
  have gen: "signed_quantity_for_wallet n w =
               (if Some (lower w) = user n \<and> is_buy (side n) then sz
                else if Some (lower w) = user n \<and> is_sell (side n) then - sz
                else 0)" for w
    using assms by (simp add: signed_quantity_for_wallet_def proxy_quantity_def Let_def)
  have "signed_quantity_for_wallet n ''0xA'' = - sz"
    if "user n = Some ''0xa''" and "side n = PStr ''sell''"
    using that by (simp add: gen lower_wallets is_buy_def is_sell_def)
  then show ?thesis
    using gen by blast
qed

theorem proxy_wallet_precedence_witness:
  "normalize_trade_record sample_lib role_trade = Inr role_norm
   \<and> present (user role_norm) \<and> size_n role_norm = Some 7
   \<and> signed_quantity_for_wallet role_norm ''0xA'' = - 7
   \<and> signed_quantity_for_wallet role_norm ''0xB'' = 0"
proof -
  have p: "present (user role_norm)" and s: "size_n role_norm = Some 7"
    by (simp_all add: role_norm_def present_def)
  have "signed_quantity_for_wallet role_norm ''0xA'' = - 7"
    using proxy_wallet_precedence [OF p s, of "''0xA''"] by (simp add: role_norm_def)
  moreover have "signed_quantity_for_wallet role_norm ''0xB'' = 0"
    using proxy_wallet_precedence [OF p s, of "''0xB''"]
    by (simp add: role_norm_def lower_wallets)
  ultimately show ?thesis
    using p s by (simp add: normalize_role_trade)
qed

text \<open>
  Claim C3, as the specification states it: with no user, a size that is not zero and a
  buyer or a seller present, the quantity is zero when the wallet is neither the buyer
  nor the seller. The trade below names its seller and its taker; the wallet is the
  taker, so it is neither buyer nor seller, and the quantity is 3: the maker/taker block
  runs after the buyer/seller block.
\<close>

theorem buyer_seller_falls_through:
  "normalize_trade_record sample_lib seller_trade = Inr seller_norm
   \<and> user seller_norm = None \<and> size_n seller_norm = Some 3
   \<and> present (seller seller_norm)
   \<and> Some (lower ''0xW'') \<noteq> buyer seller_norm \<and> Some (lower ''0xW'') \<noteq> seller seller_norm
   \<and> signed_quantity_for_wallet seller_norm ''0xW'' = 3"
  by (simp add: normalize_seller_trade)
     (simp add: seller_norm_def present_def lower_wallets signed_quantity_for_wallet_def
        buyer_seller_quantity_def maker_taker_quantity_def is_buy_def)

text \<open>
  Claim C3, amended: with no user, a size that is not zero and a buyer or a seller
  present, the quantity is the size when the lower-cased wallet is the buyer, minus the
  size when it is the seller and not the buyer, and otherwise what the maker/taker rule
  gives; it is zero when the wallet is neither and the maker/taker rule does not apply
  (no maker and no taker, or no side).
\<close>

theorem buyer_seller_then_maker_taker:
  assumes "\<not> present (user n)" and "size_n n = Some sz" and "sz \<noteq> 0"
    and "present (buyer n) \<or> present (seller n)"
  shows "signed_quantity_for_wallet n wallet =
           (if Some (lower wallet) = buyer n then sz
            else if Some (lower wallet) = seller n then - sz
            else (case maker_taker_quantity n (lower wallet) sz of Some q \<Rightarrow> q | None \<Rightarrow> 0))
         \<and> (Some (lower wallet) \<noteq> buyer n \<and> Some (lower wallet) \<noteq> seller n
              \<and> \<not> ((present (maker n) \<or> present (taker n)) \<and> truthy (side n))
            \<longrightarrow> signed_quantity_for_wallet n wallet = 0)"
proof -
  have "signed_quantity_for_wallet n wallet =
           (if Some (lower wallet) = buyer n then sz
            else if Some (lower wallet) = seller n then - sz
            else (case maker_taker_quantity n (lower wallet) sz of Some q \<Rightarrow> q | None \<Rightarrow> 0))"
    using assms by (simp add: signed_quantity_for_wallet_def buyer_seller_quantity_def Let_def)
  moreover have "maker_taker_quantity n (lower wallet) sz = None"
    if "\<not> ((present (maker n) \<or> present (taker n)) \<and> truthy (side n))"
    using that by (simp add: maker_taker_quantity_def)
  ultimately show ?thesis
    by auto
qed

theorem buyer_seller_then_maker_taker_witness:
  "\<not> present (user seller_norm) \<and> size_n seller_norm = Some 3 \<and> present (seller seller_norm)
   \<and> signed_quantity_for_wallet seller_norm ''0xS'' = - 3
   \<and> maker_taker_quantity seller_norm ''0xw'' 3 = Some 3
   \<and> signed_quantity_for_wallet seller_norm ''0xW'' = 3"
proof -
  have u: "\<not> present (user seller_norm)" and s: "size_n seller_norm = Some 3"
    and b: "present (buyer seller_norm) \<or> present (seller seller_norm)"
    by (simp_all add: seller_norm_def present_def)
  have low: "lower ''0xS'' = ''0xs''"
    by (simp add: lower_def lower_char_def)
  have "signed_quantity_for_wallet seller_norm ''0xS'' = - 3"
    using buyer_seller_then_maker_taker [OF u s _ b, of "''0xS''"]
    by (simp add: seller_norm_def low)
  moreover have mt: "maker_taker_quantity seller_norm ''0xw'' 3 = Some 3"
    by (simp add: maker_taker_quantity_def seller_norm_def present_def is_buy_def)
  moreover have "signed_quantity_for_wallet seller_norm ''0xW'' = 3"
    using buyer_seller_then_maker_taker [OF u s _ b, of "''0xW''"] mt
    by (simp add: seller_norm_def lower_wallets)
  ultimately show ?thesis
    using u s by (simp add: seller_norm_def present_def)
qed

section \<open>Aggregation\<close>

text \<open>
  Claim C4. A trade whose signed quantity for the wallet is exactly zero leaves the
  buckets as they were: the loop body returns the same association list, so no bucket is
  created and no net shares, price sum or fill count changes, and the loop goes on as if
  the trade were not there.
\<close>

theorem zero_delta_exclusion:
  assumes "normalize_trade_record L t = Inr n" and "signed_quantity_for_wallet n wallet = 0"
  shows "aggregate_step L wallet bs t = Inr bs
         \<and> aggregate_loop L wallet bs (t # trades) = aggregate_loop L wallet bs trades"
  using assms by (simp add: aggregate_step_def)

theorem zero_delta_exclusion_witness:
  "normalize_trade_record sample_lib role_trade = Inr role_norm
   \<and> signed_quantity_for_wallet role_norm ''0xW'' = 0
   \<and> aggregate_step sample_lib ''0xW''
        [((''M1'', ''O1''),
          \<lparr> b_market_id = ''M1'', b_market_title = PNone, b_outcome_id = ''O1'',
            b_outcome_label = PStr ''O1'', net_shares = 10, fills = 1,
            avg_fill_price_sum = 2 / 5 \<rparr>)] role_trade
      = Inr [((''M1'', ''O1''),
          \<lparr> b_market_id = ''M1'', b_market_title = PNone, b_outcome_id = ''O1'',
            b_outcome_label = PStr ''O1'', net_shares = 10, fills = 1,
            avg_fill_price_sum = 2 / 5 \<rparr>)]"
proof -
  have z: "signed_quantity_for_wallet role_norm ''0xW'' = 0"
    by (simp add: signed_quantity_for_wallet_def proxy_quantity_def role_norm_def present_def
          lower_wallets)
  from zero_delta_exclusion [OF normalize_role_trade z] z show ?thesis
    by (simp add: normalize_role_trade)
qed

lemma set_update_cases:
  "x \<in> set (AList.update k v al) \<Longrightarrow> x = (k, v) \<or> x \<in> set al"
  by (induction al) (auto split: if_splits)

lemma aggregate_step_fills:
  assumes "aggregate_step L wallet bs t = Inr bs'" and "\<forall>kb \<in> set bs. 1 \<le> fills (snd kb)"
  shows "\<forall>kb \<in> set bs'. 1 \<le> fills (snd kb)"
proof
  fix kb
  assume mem: "kb \<in> set bs'"
  obtain n where n: "normalize_trade_record L t = Inr n"
    using assms(1) by (cases "normalize_trade_record L t") (auto simp: aggregate_step_def)
  show "1 \<le> fills (snd kb)"
  proof (cases "bs' = bs")
    case True
    then show ?thesis using assms(2) mem by simp
  next
    case False
    then obtain key b where upd: "bs' = AList.update key b bs" and b: "1 \<le> fills b"
      using assms n
      by (auto simp: aggregate_step_def Let_def map_of_eq_Some_iff dest!: map_of_SomeD
               split: if_splits option.splits)
    from mem upd set_update_cases [of kb key b bs] have "kb = (key, b) \<or> kb \<in> set bs"
      by simp
    then show ?thesis using b assms(2) by auto
  qed
qed

lemma aggregate_loop_fills:
  assumes "aggregate_loop L wallet bs trades = Inr bs'" and "\<forall>kb \<in> set bs. 1 \<le> fills (snd kb)"
  shows "\<forall>kb \<in> set bs'. 1 \<le> fills (snd kb)"
  using assms
proof (induction trades arbitrary: bs)
  case Nil
  then show ?case by simp
next
  case (Cons t trades)
  from Cons.prems(1) obtain bs1 where s: "aggregate_step L wallet bs t = Inr bs1"
    and l: "aggregate_loop L wallet bs1 trades = Inr bs'"
    by (cases "aggregate_step L wallet bs t") auto
  show ?case
    using Cons.IH [OF l aggregate_step_fills [OF s Cons.prems(2)]] .
qed

text \<open>
  Claim C10. Every bucket the loop builds from the empty dict has at least one fill, so
  \<open>max(fills, 1)\<close> is \<open>fills\<close> in the final division, which never divides by zero;
  every position returned has at least one fill.
\<close>

theorem bucket_fills_positive:
  assumes "aggregate_loop L wallet [] trades = Inr bs"
  shows "aggregate_delta_for_wallet L trades wallet = Inr (map (\<lambda>(k, rec). finalize rec) bs)
         \<and> (\<forall>kb \<in> set bs. 1 \<le> fills (snd kb) \<and> max (fills (snd kb)) 1 = fills (snd kb)
               \<and> avg_fill_price (finalize (snd kb))
                   = avg_fill_price_sum (snd kb) / of_int (fills (snd kb)))
         \<and> (\<forall>p \<in> set (map (\<lambda>(k, rec). finalize rec) bs). 1 \<le> p_fills p)"
proof -
  have inv: "\<forall>kb \<in> set bs. 1 \<le> fills (snd kb)"
    using aggregate_loop_fills [OF assms] by simp
  have mx: "\<forall>kb \<in> set bs. max (fills (snd kb)) 1 = fills (snd kb)"
    using inv by (auto simp: max_def)
  have av: "\<forall>kb \<in> set bs. avg_fill_price (finalize (snd kb))
                   = avg_fill_price_sum (snd kb) / of_int (fills (snd kb))"
    using mx by (simp add: finalize_def)
  have ps: "\<forall>p \<in> set (map (\<lambda>(k, rec). finalize rec) bs). 1 \<le> p_fills p"
    using inv by (auto simp: finalize_def)
  have res: "aggregate_delta_for_wallet L trades wallet = Inr (map (\<lambda>(k, rec). finalize rec) bs)"
    using assms by (simp add: aggregate_delta_for_wallet_def)
  from res inv mx av ps show ?thesis
    by blast
qed

theorem bucket_fills_positive_witness:
  "aggregate_loop sample_lib ''0xW'' [] [trade1, trade2] =
     Inr [((''M1'', ''O1''),
           \<lparr> b_market_id = ''M1'', b_market_title = PNone, b_outcome_id = ''O1'',
             b_outcome_label = PStr ''O1'', net_shares = 6, fills = 2,
             avg_fill_price_sum = 9 / 10 \<rparr>)]
   \<and> (\<exists>p. aggregate_delta_for_wallet sample_lib [trade1, trade2] ''0xW'' = Inr [p] \<and> 1 \<le> p_fills p)"
  using bucket_fills_positive [OF loop_two_trades, of sample_lib]
  by (simp add: loop_two_trades del: aggregate_loop.simps)

section \<open>Field resolution\<close>

lemma normalize_market_id:
  "normalize_trade_record L t = Inr n \<Longrightarrow> market_id n = resolve_market_id t"
  by (auto simp: normalize_trade_record_def Let_def split: sum.splits)

lemma resolve_market_id_chain:
  "resolve_market_id t = first_truthy_or_last t market_id_keys"
  by (simp add: resolve_market_id_def market_id_keys_def py_or_def)

lemma first_non_null_truthy:
  "\<forall>k \<in> set ks. dget t k = PNone \<or> truthy (dget t k) \<Longrightarrow>
   first_truthy_or_last t ks = first_non_null t ks"
  by (induction t ks rule: first_truthy_or_last.induct) auto

text \<open>
  Claim C8, as the specification states it: the market id is the first non-null value
  among conditionId, market, marketId, market\_id, eventId. A record whose market is the
  empty string and whose marketId is M2 has market id M2, while its first non-null value
  is the empty string.
\<close>

theorem market_id_skips_empty:
  "map_sum id market_id (normalize_trade_record sample_lib empty_market_trade) = Inr (PStr ''M2'')
   \<and> first_non_null empty_market_trade market_id_keys = PStr []"
  by (simp add: normalize_defs empty_market_trade_def market_id_keys_def)

text \<open>
  Claim C8, amended: the market id is the first truthy value (not null, not empty, not
  zero) among conditionId, market, marketId, market\_id, eventId, in that order, and the
  value of eventId when none is truthy; it is the first non-null value whenever each of
  the five values is null or truthy.
\<close>

theorem market_id_first_truthy:
  assumes "normalize_trade_record L t = Inr n"
  shows "market_id n = first_truthy_or_last t market_id_keys
         \<and> ((\<forall>k \<in> set market_id_keys. dget t k = PNone \<or> truthy (dget t k))
            \<longrightarrow> market_id n = first_non_null t market_id_keys)"
  using normalize_market_id [OF assms] first_non_null_truthy [of market_id_keys t]
  by (simp add: resolve_market_id_chain)

theorem market_id_first_truthy_witness:
  "normalize_trade_record sample_lib seller_trade = Inr seller_norm
   \<and> market_id seller_norm = first_truthy_or_last seller_trade market_id_keys
   \<and> market_id seller_norm = first_non_null seller_trade market_id_keys
   \<and> market_id seller_norm = PStr ''M1''"
proof -
  have "\<forall>k \<in> set market_id_keys. dget seller_trade k = PNone \<or> truthy (dget seller_trade k)"
    by (simp add: market_id_keys_def seller_trade_def dget_def)
  with market_id_first_truthy [OF normalize_seller_trade [of sample_lib]]
  have "market_id seller_norm = first_truthy_or_last seller_trade market_id_keys"
    and "market_id seller_norm = first_non_null seller_trade market_id_keys"
    by blast+
  moreover have "market_id seller_norm = PStr ''M1''"
    by (simp add: seller_norm_def)
  ultimately show ?thesis
    using normalize_seller_trade [of sample_lib] by blast
qed


section \<open>Day windows\<close>

lemma windows_loop_contiguous:
  assumes "windows_loop off cur e out = Inr ws"
    and "\<forall>i. Suc i < length out \<longrightarrow> snd (out ! i) = fst (out ! Suc i)"
    and "out \<noteq> [] \<longrightarrow> utc_timestamp off cur = Inr (snd (last out))"
  shows "\<forall>i. Suc i < length ws \<longrightarrow> snd (ws ! i) = fst (ws ! Suc i)"
  using assms
proof (induction off cur e out rule: windows_loop.induct)
  case (1 off cur e out)
  show ?case
  proof (cases "cur < e")
    case False
    with "1.prems" show ?thesis by (simp add: windows_loop.simps [of off cur])
  next
    case True
    have unf: "windows_loop off cur e out =
                 (case add_day cur of
                    Inl x \<Rightarrow> Inl x
                  | Inr c1 \<Rightarrow>
                      (case utc_timestamp off cur of
                         Inl x \<Rightarrow> Inl x
                       | Inr s \<Rightarrow>
                           (case utc_timestamp off (min c1 e) of
                              Inl x \<Rightarrow> Inl x
                            | Inr e' \<Rightarrow> windows_loop off (min c1 e) e (out @ [(s, e')]))))"
      using True by (subst windows_loop.simps) (simp add: Let_def split: sum.splits)
    from "1.prems"(1) obtain c1 s e' where
      c1: "add_day cur = Inr c1" and s: "utc_timestamp off cur = Inr s"
      and e': "utc_timestamp off (min c1 e) = Inr e'"
      and rec: "windows_loop off (min c1 e) e (out @ [(s, e')]) = Inr ws"
      unfolding unf by (auto split: sum.splits)
    have chain: "\<forall>i. Suc i < length (out @ [(s, e')]) \<longrightarrow>
                   snd ((out @ [(s, e')]) ! i) = fst ((out @ [(s, e')]) ! Suc i)"
    proof (intro allI impI)
      fix i
      assume i: "Suc i < length (out @ [(s, e')])"
      show "snd ((out @ [(s, e')]) ! i) = fst ((out @ [(s, e')]) ! Suc i)"
      proof (cases "Suc i < length out")
        case True
        then show ?thesis using "1.prems"(2) by (simp add: nth_append)
      next
        case False
        with i have len: "Suc i = length out" by simp
        then have ne: "out \<noteq> []" by auto
        with "1.prems"(3) s have "snd (last out) = s" by simp
        moreover have "length out - 1 = i" using len by simp
        then have "last out = out ! i" using ne by (simp add: last_conv_nth)
        ultimately show ?thesis using len [symmetric] by (simp add: nth_append)
      qed
    qed
    have lst: "out @ [(s, e')] \<noteq> [] \<longrightarrow>
                 utc_timestamp off (min c1 e) = Inr (snd (last (out @ [(s, e')])))"
      using e' by simp
    from "1.IH" [OF True c1 refl s e' rec chain lst] show ?thesis .
  qed
qed

lemma parse_sample_dates:
  "parse_date_local ''2025-10-15'' = Inr 739539"
  "parse_date_local ''2025-10-17'' = Inr 739541"
  "parse_date_local ''9999-12-31'' = Inr 3652059"
  by (simp_all add: parse_date_local_def strptime_ymd_def dec_value_def digit_of_def
        days_in_month_def is_leap_def ymd2ord_def days_before_year_def days_before_month_def)

lemma utc_timestamp_plus_one_hour:
  "utc_timestamp plus_one_hour d =
     (if d < 2 \<or> d > MAXORDINAL + 1 then Inl OverflowError
      else Inr ((d - 719163) * 86400 - 3600))"
  by (auto simp: utc_timestamp_def plus_one_hour_def Let_def MAXORDINAL_def)

lemma three_day_windows:
  "day_windows_local_to_utc plus_one_hour ''2025-10-15'' ''2025-10-17'' =
     Inr [(1760482800, 1760569200), (1760569200, 1760655600), (1760655600, 1760742000)]"
  by (simp add: day_windows_local_to_utc_def parse_sample_dates add_day_def
        utc_timestamp_plus_one_hour MAXORDINAL_def windows_loop.simps)

text \<open>In every zone the range that ends on the last day of the calendar overflows.\<close>

lemma last_day_overflows:
  "parse_date_local from_date = Inr a \<Longrightarrow>
   day_windows_local_to_utc off from_date ''9999-12-31'' = Inl OverflowError"
  by (simp add: day_windows_local_to_utc_def parse_sample_dates add_day_def MAXORDINAL_def)

text \<open>
  Claim C5, as the specification states it: every parseable date, taken as both ends of
  the range, gives exactly one interval. The last day of the calendar parses, and the day
  after it does not exist: the function raises \<open>OverflowError\<close> and returns no interval.
\<close>

theorem last_day_has_no_window:
  "parse_date_local ''9999-12-31'' = Inr 3652059
   \<and> day_windows_local_to_utc plus_one_hour ''9999-12-31'' ''9999-12-31'' = Inl OverflowError"
  by (simp add: day_windows_local_to_utc_def parse_sample_dates add_day_def MAXORDINAL_def)

text \<open>
  Claim C5, amended: when both dates parse to the same day, that day is not the last day
  of the calendar and both its midnight and the next convert to UTC, the result is exactly
  one interval, from the one timestamp to the other; and whenever the function returns
  intervals, each interval ends where the next one starts.
\<close>

theorem window_coverage:
  "(parse_date_local from_date = Inr a \<and> parse_date_local to_date = Inr a \<and> a < MAXORDINAL
      \<and> utc_timestamp off a = Inr s \<and> utc_timestamp off (a + 1) = Inr e
      \<longrightarrow> day_windows_local_to_utc off from_date to_date = Inr [(s, e)])
   \<and> (day_windows_local_to_utc off from_date to_date = Inr ws
      \<longrightarrow> (\<forall>i. Suc i < length ws \<longrightarrow> snd (ws ! i) = fst (ws ! Suc i)))"
proof (intro conjI impI)
  assume h: "parse_date_local from_date = Inr a \<and> parse_date_local to_date = Inr a
      \<and> a < MAXORDINAL \<and> utc_timestamp off a = Inr s \<and> utc_timestamp off (a + 1) = Inr e"
  then have ad: "add_day a = Inr (a + 1)" by (simp add: add_day_def)
  have "windows_loop off a (a + 1) [] = Inr [(s, e)]"
    using h ad
    by (simp add: windows_loop.simps [of off a] windows_loop.simps [of off "a + 1"])
  then show "day_windows_local_to_utc off from_date to_date = Inr [(s, e)]"
    using h ad by (simp add: day_windows_local_to_utc_def)
next
  assume r: "day_windows_local_to_utc off from_date to_date = Inr ws"
  then obtain a b where "windows_loop off a b [] = Inr ws"
    by (auto simp: day_windows_local_to_utc_def split: sum.splits)
  from windows_loop_contiguous [OF this]
  show "\<forall>i. Suc i < length ws \<longrightarrow> snd (ws ! i) = fst (ws ! Suc i)"
    by simp
qed

theorem window_coverage_witness:
  "parse_date_local ''2025-10-15'' = Inr 739539 \<and> (739539 :: int) < MAXORDINAL
   \<and> utc_timestamp plus_one_hour 739539 = Inr 1760482800
   \<and> utc_timestamp plus_one_hour (739539 + 1) = Inr 1760569200
   \<and> day_windows_local_to_utc plus_one_hour ''2025-10-15'' ''2025-10-15''
       = Inr [(1760482800, 1760569200)]
   \<and> day_windows_local_to_utc plus_one_hour ''2025-10-15'' ''2025-10-17''
       = Inr [(1760482800, 1760569200), (1760569200, 1760655600), (1760655600, 1760742000)]
   \<and> snd ([(1760482800 :: int, 1760569200 :: int), (1760569200, 1760655600),
             (1760655600, 1760742000)] ! 1)
       = fst ([(1760482800 :: int, 1760569200 :: int), (1760569200, 1760655600),
               (1760655600, 1760742000)] ! Suc 1)"
proof -
  have p: "parse_date_local ''2025-10-15'' = Inr 739539"
    by (rule parse_sample_dates(1))
  have a: "(739539 :: int) < MAXORDINAL"
    by (simp add: MAXORDINAL_def)
  have s: "utc_timestamp plus_one_hour 739539 = Inr 1760482800"
    by (simp add: utc_timestamp_plus_one_hour MAXORDINAL_def)
  have e: "utc_timestamp plus_one_hour (739539 + 1) = Inr 1760569200"
    by (simp add: utc_timestamp_plus_one_hour MAXORDINAL_def)
  have "parse_date_local ''2025-10-15'' = Inr 739539 \<and> parse_date_local ''2025-10-15'' = Inr 739539
        \<and> 739539 < MAXORDINAL \<and> utc_timestamp plus_one_hour 739539 = Inr 1760482800
        \<and> utc_timestamp plus_one_hour (739539 + 1) = Inr 1760569200
        \<longrightarrow> day_windows_local_to_utc plus_one_hour ''2025-10-15'' ''2025-10-15''
              = Inr [(1760482800, 1760569200)]"
    by (rule conjunct1 [OF window_coverage])
  then have one: "day_windows_local_to_utc plus_one_hour ''2025-10-15'' ''2025-10-15''
                    = Inr [(1760482800, 1760569200)]"
    using p a s e by (elim impE) (intro conjI)
  let ?ws = "[(1760482800, 1760569200), (1760569200, 1760655600), (1760655600, 1760742000)]
               :: (int \<times> int) list"
  have "day_windows_local_to_utc plus_one_hour ''2025-10-15'' ''2025-10-17'' = Inr ?ws
        \<longrightarrow> (\<forall>i. Suc i < length ?ws \<longrightarrow> snd (?ws ! i) = fst (?ws ! Suc i))"
    by (rule conjunct2 [OF window_coverage])
  then have "\<forall>i. Suc i < length ?ws \<longrightarrow> snd (?ws ! i) = fst (?ws ! Suc i)"
    using three_day_windows by (elim impE)
  then have "Suc 1 < length ?ws \<longrightarrow> snd (?ws ! 1) = fst (?ws ! Suc 1)"
    by (rule spec)
  moreover have "Suc 1 < length ?ws"
    by simp
  ultimately have two: "snd (?ws ! 1) = fst (?ws ! Suc 1)"
    by (rule mp)
  from p a s e one three_day_windows two show ?thesis
    by (intro conjI)
qed

section \<open>Fees\<close>

lemma hex_samples:
  "hex_to_int (PStr ''0x5'') = Some 5"
  "hex_to_int (PStr ''0x0'') = Some 0"
  "hex_to_int (PStr ''0x5208'') = Some 21000"
  by (simp_all add: starts_with_0x_def int_of_str_def strip_def is_space_def skip_prefix_def
        digit_of_def)

text \<open>
  The scenario of the specification: no effective gas price in the receipt, gas price 0x5
  in the transaction.
\<close>

lemma fee_fallback_scenario:
  "compute_fee (legacy_world ''0x5'') [] (PStr ''0xabc'') =
     (Inr [(''gasUsed'', PInt 21000), (''effectiveGasPrice'', PNone), (''gasPrice'', PInt 5),
           (''feeWei'', PInt 105000), (''feeMATIC'', PFloat (105000 / 10 ^ 18)),
           (''note'', PStr ''fallback_gasPrice'')],
      [GetTxReceipt (PStr ''0xabc''), GetTxData (PStr ''0xabc'')])"
  by (simp add: compute_fee_def legacy_world_def dget_def hex_samples legacy_gas_price_def
        fee_record_def opt_int_def wei_to_matic_def Let_def del: hex_to_int.simps(2))

text \<open>What the fallback gives in general: the note depends on the gas price being non-zero.\<close>

lemma fee_fallback_note:
  assumes "env hist (GetTxReceipt tx) = Inr (PDict r)" and "r \<noteq> []"
    and "hex_to_int (dget r ''effectiveGasPrice'') = None"
    and "env (hist @ [GetTxReceipt tx]) (GetTxData tx) = Inr txd"
    and "legacy_gas_price txd = Inr gp"
  shows "\<exists>fee. fst (compute_fee env hist tx) = Inr fee
           \<and> dget fee ''note'' = PStr (if gp \<noteq> None \<and> gp \<noteq> Some 0 then ''fallback_gasPrice''
                                        else ''no_price_found'')
           \<and> dget fee ''gasPrice'' = opt_int gp
           \<and> dget fee ''feeWei'' = (case (hex_to_int (dget r ''gasUsed''), gp) of
                                      (Some g, Some p) \<Rightarrow> PInt (g * p)
                                    | _ \<Rightarrow> PNone)"
  using assms
  by (simp add: compute_fee_def Let_def fee_record_def dget_def split: option.splits)

text \<open>
  Claim C6. The scenario holds (gas price 0x5 gives the note fallback\_gasPrice and the
  price 5), and so does the general rule for every gas price but zero. A transaction
  whose gas price is 0x0 has a legacy gas price, 0, and the fee is computed from it
  (feeWei 0, gasPrice 0), yet the note is no\_price\_found: the note is chosen by the
  truth value of the price, the fee by the price not being \<open>None\<close>.
\<close>

theorem fee_zero_gas_price:
  "compute_fee (legacy_world ''0x0'') [] (PStr ''0xabc'') =
     (Inr [(''gasUsed'', PInt 21000), (''effectiveGasPrice'', PNone), (''gasPrice'', PInt 0),
           (''feeWei'', PInt 0), (''feeMATIC'', PFloat 0),
           (''note'', PStr ''no_price_found'')],
      [GetTxReceipt (PStr ''0xabc''), GetTxData (PStr ''0xabc'')])"
  by (simp add: compute_fee_def legacy_world_def dget_def hex_samples legacy_gas_price_def
        fee_record_def opt_int_def wei_to_matic_def Let_def del: hex_to_int.simps(2))

subsection \<open>The cache\<close>

lemma py_eq_refl: "py_eq a a"
  by (simp add: py_eq_def split: option.splits)

lemma py_eq_sym: "py_eq a b \<Longrightarrow> py_eq b a"
  by (auto simp: py_eq_def split: option.splits)

lemma py_eq_trans: "py_eq a b \<Longrightarrow> py_eq b c \<Longrightarrow> py_eq a c"
  by (auto simp: py_eq_def split: option.splits)

lemma cache_get_put:
  "cache_get (cache_put c k v) k' = (if py_eq k k' then Some v else cache_get c k')"
proof (induction c)
  case Nil
  show ?case by simp
next
  case (Cons p c)
  obtain k0 v0 where p: "p = (k0, v0)" by (cases p)
  show ?case
  proof (cases "py_eq k0 k")
    case True
    then have "py_eq k0 k' \<longleftrightarrow> py_eq k k'"
      by (meson py_eq_sym py_eq_trans)
    with True show ?thesis by (simp add: p)
  next
    case False
    have "py_eq k0 k' \<Longrightarrow> \<not> py_eq k k'"
      using False by (meson py_eq_sym py_eq_trans)
    with False Cons.IH show ?thesis by (auto simp: p)
  qed
qed

lemma cache_get_cong: "py_eq k k' \<Longrightarrow> cache_get c k = cache_get c k'"
proof (induction c)
  case Nil
  show ?case by simp
next
  case (Cons p c)
  obtain k0 v0 where p: "p = (k0, v0)" by (cases p)
  have "py_eq k0 k \<longleftrightarrow> py_eq k0 k'"
    using Cons.prems by (meson py_eq_sym py_eq_trans)
  with Cons show ?case by (simp add: p)
qed

lemma cache_put_keeps:
  assumes "cache_get c k = None" and "cache_get c k' = Some fee"
  shows "cache_get (cache_put c k v) k' = Some fee"
proof -
  have "\<not> py_eq k k'"
    using assms cache_get_cong [of k k' c] by auto
  with assms show ?thesis by (simp add: cache_get_put)
qed

lemma fee_fields_enrich: "fee_fields (enrich L mp row fee) = attached L mp fee"
  by (simp add: fee_fields_def enrich_def attached_def Let_def dict_update_def dget_def update_conv')

lemma add_totals_frame:
  "enriched (add_totals L mp fee s) = enriched s \<and> tx_cache (add_totals L mp fee s) = tx_cache s
   \<and> calls (add_totals L mp fee s) = calls s"
  by (simp add: add_totals_def split: option.splits)

lemma main_step_cached:
  assumes "truthy (tx_of m)" and "hashable (tx_of m)"
    and "cache_get (tx_cache s) (tx_of m) = Some fee"
  shows "\<exists>s'. main_step env L mp s m = Inr s' \<and> calls s' = calls s \<and> tx_cache s' = tx_cache s
           \<and> enriched s' = enriched s @ [enrich L mp m fee]"
  using assms by (simp add: main_step_def Let_def add_totals_frame)

lemma main_step_result:
  assumes "main_step env L mp s m = Inr s'"
  shows "(\<exists>row. enriched s' = enriched s @ [row]
           \<and> (truthy (tx_of m) \<longrightarrow>
                (\<exists>fee. cache_get (tx_cache s') (tx_of m) = Some fee
                      \<and> row = enrich L mp m fee)))
         \<and> (\<forall>k fee. cache_get (tx_cache s) k = Some fee \<longrightarrow> cache_get (tx_cache s') k = Some fee)"
proof (cases "truthy (tx_of m)")
  case False
  with assms show ?thesis by (auto simp: main_step_def Let_def)
next
  case True
  with assms have h: "hashable (tx_of m)"
    by (auto simp: main_step_def Let_def split: if_splits)
  show ?thesis
  proof (cases "cache_get (tx_cache s) (tx_of m)")
    case (Some fee)
    from main_step_cached [OF True h Some, of env L mp] assms Some show ?thesis
      by auto
  next
    case None
    obtain f hist' where fe: "fee_or_error env (calls s) (tx_of m) = (f, hist')"
      by (cases "fee_or_error env (calls s) (tx_of m)")
    have s': "s' = add_totals L mp f (s\<lparr> enriched := enriched s @ [enrich L mp m f],
                       tx_cache := cache_put (tx_cache s) (tx_of m) f, calls := hist' \<rparr>)"
      using assms True h None fe by (simp add: main_step_def Let_def)
    have c': "tx_cache s' = cache_put (tx_cache s) (tx_of m) f"
      and r': "enriched s' = enriched s @ [enrich L mp m f]"
      by (simp_all add: s' add_totals_frame)
    have "cache_get (tx_cache s') (tx_of m) = Some f"
      by (simp add: c' cache_get_put py_eq_refl)
    moreover have "cache_get (tx_cache s') k = Some fee"
      if "cache_get (tx_cache s) k = Some fee" for k fee
      using cache_put_keeps [OF None that] c' by simp
    ultimately show ?thesis using r' by blast
  qed
qed

lemma main_loop_result:
  assumes "main_loop env L mp s ms = Inr s'"
  shows "(\<exists>rows. enriched s' = enriched s @ rows \<and> length rows = length ms)
         \<and> (\<forall>k fee. cache_get (tx_cache s) k = Some fee \<longrightarrow> cache_get (tx_cache s') k = Some fee)"
  using assms
proof (induction ms arbitrary: s)
  case Nil
  then show ?case by simp
next
  case (Cons m ms)
  from Cons.prems obtain s1 where st: "main_step env L mp s m = Inr s1"
    and lp: "main_loop env L mp s1 ms = Inr s'"
    by (cases "main_step env L mp s m") auto
  from main_step_result [OF st] obtain row where
    r1: "enriched s1 = enriched s @ [row]"
    and k1: "\<forall>k fee. cache_get (tx_cache s) k = Some fee \<longrightarrow> cache_get (tx_cache s1) k = Some fee"
    by blast
  from Cons.IH [OF lp] obtain rows where
    r2: "enriched s' = enriched s1 @ rows" "length rows = length ms"
    and k2: "\<forall>k fee. cache_get (tx_cache s1) k = Some fee \<longrightarrow> cache_get (tx_cache s') k = Some fee"
    by blast
  have "enriched s' = enriched s @ (row # rows) \<and> length (row # rows) = length (m # ms)"
    using r1 r2 by simp
  then show ?case using k1 k2 by blast
qed

lemma main_loop_append:
  "main_loop env L mp s (xs @ ys) =
     (case main_loop env L mp s xs of Inl e \<Rightarrow> Inl e | Inr s1 \<Rightarrow> main_loop env L mp s1 ys)"
  by (induction xs arbitrary: s) (auto split: sum.splits)

text \<open>
  Claim C7. In a run that has processed a row with a transaction hash, any later row with
  the same hash is processed without a request (the request log and the cache stay as
  they are), and the fee columns of both rows come from the one cached record: they
  depend on the hash, not on the place in the sequence.
\<close>

theorem fee_memoization:
  assumes run: "main_loop env L mp s0 (ms1 @ m1 # ms2) = Inr s"
    and hash: "tx_of m2 = tx_of m1" and tx: "truthy (tx_of m1)"
  shows "\<exists>fee s'. main_step env L mp s m2 = Inr s'
           \<and> calls s' = calls s \<and> tx_cache s' = tx_cache s
           \<and> cache_get (tx_cache s) (tx_of m1) = Some fee
           \<and> fee_fields (enriched s ! (length (enriched s0) + length ms1)) = attached L mp fee
           \<and> fee_fields (last (enriched s')) = attached L mp fee"
proof -
  from run obtain sa where a: "main_loop env L mp s0 ms1 = Inr sa"
    and rest: "main_loop env L mp sa (m1 # ms2) = Inr s"
    by (auto simp: main_loop_append split: sum.splits)
  from rest obtain sb where b: "main_step env L mp sa m1 = Inr sb"
    and c: "main_loop env L mp sb ms2 = Inr s"
    by (cases "main_step env L mp sa m1") auto
  from main_loop_result [OF a] obtain rows1 where
    ra: "enriched sa = enriched s0 @ rows1" "length rows1 = length ms1" by blast
  from main_step_result [OF b] tx obtain fee where
    rb: "enriched sb = enriched sa @ [enrich L mp m1 fee]"
    and cb: "cache_get (tx_cache sb) (tx_of m1) = Some fee" by blast
  from main_loop_result [OF c] obtain rows2 where
    rc: "enriched s = enriched sb @ rows2"
    and kc: "\<forall>k fee. cache_get (tx_cache sb) k = Some fee \<longrightarrow> cache_get (tx_cache s) k = Some fee"
    by blast
  have cs: "cache_get (tx_cache s) (tx_of m1) = Some fee"
    using kc cb by blast
  have h: "hashable (tx_of m1)"
    using b tx by (auto simp: main_step_def Let_def split: if_splits)
  have row1: "enriched s ! (length (enriched s0) + length ms1) = enrich L mp m1 fee"
    using ra rb rc by (simp add: nth_append)
  from main_step_cached [of m2 s fee env L mp] hash tx h cs obtain s' where
    s': "main_step env L mp s m2 = Inr s'" "calls s' = calls s" "tx_cache s' = tx_cache s"
        "enriched s' = enriched s @ [enrich L mp m2 fee]"
    by auto
  have "fee_fields (last (enriched s')) = attached L mp fee"
    using s'(4) by (simp add: fee_fields_enrich)
  with s' cs row1 show ?thesis
    by (auto simp: fee_fields_enrich)
qed


lemma once_world_run:
  "main_loop once_world sample_lib (1 / 2) init_state [merge1] =
     Inr \<lparr> enriched =
             [[(''transactionHash'', PStr ''0xabc''), (''usdcSize'', PInt 10),
               (''feeMATIC'', PFloat (105000 / 10 ^ 18)), (''feeUSDC'', PFloat (105000 / 10 ^ 18 * (1 / 2))),
               (''netUSDC_after_fee'', PFloat (10 - 105000 / 10 ^ 18 * (1 / 2))),
               (''maticPriceUSDC'', PFloat (1 / 2)), (''fee_note'', PStr ''effectiveGasPrice'')]],
           tx_cache =
             [(PStr ''0xabc'',
               [(''gasUsed'', PInt 21000), (''effectiveGasPrice'', PInt 5), (''gasPrice'', PInt 5),
                (''feeWei'', PInt 105000), (''feeMATIC'', PFloat (105000 / 10 ^ 18)),
                (''note'', PStr ''effectiveGasPrice'')])],
           total_matic = 105000 / 10 ^ 18, total_usdc = 105000 / 10 ^ 18 * (1 / 2),
           tx_count = 1, calls = [GetTxReceipt (PStr ''0xabc'')] \<rparr>"
proof -
  have fee: "fee_or_error once_world [] (PStr ''0xabc'') =
               ([(''gasUsed'', PInt 21000), (''effectiveGasPrice'', PInt 5), (''gasPrice'', PInt 5),
                 (''feeWei'', PInt 105000), (''feeMATIC'', PFloat (105000 / 10 ^ 18)),
                 (''note'', PStr ''effectiveGasPrice'')],
                [GetTxReceipt (PStr ''0xabc'')])"
    by (simp add: fee_or_error_def compute_fee_def once_world_def dget_def hex_samples
          fee_record_def opt_int_def wei_to_matic_def Let_def del: hex_to_int.simps(2))
  have tx: "tx_of merge1 = PStr ''0xabc''"
    by (simp add: tx_of_def merge1_def dget_def py_or_def)
  show ?thesis
    by (simp add: main_step_def tx init_state_def fee Let_def)
       (simp add: add_totals_def enrich_def merge1_def dget_def safe_float_def is_none_def
          dict_update_def opt_num_def Let_def)
qed

theorem fee_memoization_witness:
  "\<exists>s. main_loop once_world sample_lib (1 / 2) init_state ([] @ merge1 # []) = Inr s
       \<and> tx_of merge2 = tx_of merge1 \<and> truthy (tx_of merge1)
       \<and> calls s = [GetTxReceipt (PStr ''0xabc'')]
       \<and> (\<exists>fee s'. main_step once_world sample_lib (1 / 2) s merge2 = Inr s'
             \<and> calls s' = calls s
             \<and> fee_fields (enriched s ! 0) = attached sample_lib (1 / 2) fee
             \<and> fee_fields (last (enriched s')) = attached sample_lib (1 / 2) fee
             \<and> fee_fields (last (enriched s')) 
                 = (PFloat (105000 / 10 ^ 18), PFloat (105000 / 10 ^ 18 * (1 / 2)),
                    PStr ''effectiveGasPrice''))"
proof -
  obtain s where run: "main_loop once_world sample_lib (1 / 2) init_state ([] @ merge1 # []) = Inr s"
    and cl: "calls s = [GetTxReceipt (PStr ''0xabc'')]"
    and row: "fee_fields (enriched s ! 0)
                = (PFloat (105000 / 10 ^ 18), PFloat (105000 / 10 ^ 18 * (1 / 2)),
                   PStr ''effectiveGasPrice'')"
    and e0: "length (enriched init_state) + length ([] :: pydict list) = 0"
    using once_world_run by (simp add: fee_fields_def dget_def init_state_def)
  have h: "tx_of merge2 = tx_of merge1"
    by (simp add: tx_of_def merge1_def merge2_def dget_def py_or_def)
  have t: "truthy (tx_of merge1)"
    by (simp add: tx_of_def merge1_def dget_def py_or_def)
  from fee_memoization [OF run h t] obtain fee s' where
    r: "main_step once_world sample_lib (1 / 2) s merge2 = Inr s'" "calls s' = calls s"
       "fee_fields (enriched s ! (length (enriched init_state) + length ([] :: pydict list)))
          = attached sample_lib (1 / 2) fee"
       "fee_fields (last (enriched s')) = attached sample_lib (1 / 2) fee"
    by blast
  from r(3) have r3: "fee_fields (enriched s ! 0) = attached sample_lib (1 / 2) fee"
    by (simp only: e0)
  with r(4) row have "fee_fields (last (enriched s'))
                 = (PFloat (105000 / 10 ^ 18), PFloat (105000 / 10 ^ 18 * (1 / 2)),
                    PStr ''effectiveGasPrice'')"
    by simp
  with run h t cl r(1,2,4) r3 show ?thesis
    by blast
qed

text \<open>
  Claim C9. When the receipt request raises, or the receipt arrives without an effective
  gas price and the transaction request raises, the fee record of that hash is
  \<open>{"feeMATIC": None, "note": "error:<message>"}\<close>: every field but the note reads as
  \<open>None\<close>, the loop body returns normally, and the row gets a null fee and the error
  note.
\<close>

theorem fee_error_absorption:
  assumes "env hist (GetTxReceipt tx) = Inl msg
           \<or> (\<exists>r. env hist (GetTxReceipt tx) = Inr (PDict r) \<and> r \<noteq> []
                  \<and> hex_to_int (dget r ''effectiveGasPrice'') = None
                  \<and> env (hist @ [GetTxReceipt tx]) (GetTxData tx) = Inl msg)"
  shows "fst (fee_or_error env hist tx) = [(''feeMATIC'', PNone), (''note'', PStr (''error:'' @ msg))]
         \<and> (\<forall>k. k \<noteq> ''note'' \<longrightarrow> dget (fst (fee_or_error env hist tx)) k = PNone)
         \<and> (\<forall>L mp s m. tx_of m = tx \<and> truthy tx \<and> hashable tx \<and> calls s = hist
                \<and> cache_get (tx_cache s) tx = None \<longrightarrow>
              (\<exists>s'. main_step env L mp s m = Inr s'
                  \<and> fee_fields (last (enriched s')) = (PNone, PNone, PStr (''error:'' @ msg))))"
proof -
  have fee: "fst (fee_or_error env hist tx) = [(''feeMATIC'', PNone), (''note'', PStr (''error:'' @ msg))]"
    using assms by (auto simp: fee_or_error_def compute_fee_def Let_def)
  have nulls: "\<forall>k. k \<noteq> ''note'' \<longrightarrow> dget (fst (fee_or_error env hist tx)) k = PNone"
    by (simp add: fee dget_def)
  have att: "attached L mp [(''feeMATIC'', PNone), (''note'', PStr (''error:'' @ msg))]
              = (PNone, PNone, PStr (''error:'' @ msg))" for L mp
    by (simp add: attached_def dget_def safe_float_def is_none_def opt_num_def)
  have step: "\<exists>s'. main_step env L mp s m = Inr s'
                  \<and> fee_fields (last (enriched s')) = (PNone, PNone, PStr (''error:'' @ msg))"
    if "tx_of m = tx \<and> truthy tx \<and> hashable tx \<and> calls s = hist \<and> cache_get (tx_cache s) tx = None"
    for L mp s m
  proof -
    obtain f h where fh: "fee_or_error env hist tx = (f, h)"
      by (cases "fee_or_error env hist tx")
    with fee have f: "f = [(''feeMATIC'', PNone), (''note'', PStr (''error:'' @ msg))]" by simp
    have att': "attached L mp f = (PNone, PNone, PStr (''error:'' @ msg))"
      using att [of L mp] by (simp only: f)
    show ?thesis
      using that fh by (simp add: main_step_def Let_def add_totals_frame fee_fields_enrich att')
  qed
  from fee nulls step show ?thesis by blast
qed

theorem fee_error_absorption_witness:
  "failing_world [] (GetTxReceipt (PStr ''0xabc'')) = Inl ''timed out''
   \<and> fst (fee_or_error failing_world [] (PStr ''0xabc''))
       = [(''feeMATIC'', PNone), (''note'', PStr ''error:timed out'')]
   \<and> half_world [GetTxReceipt (PStr ''0xabc'')] (GetTxData (PStr ''0xabc'')) = Inl ''timed out''
   \<and> fst (fee_or_error half_world [] (PStr ''0xabc''))
       = [(''feeMATIC'', PNone), (''note'', PStr ''error:timed out'')]
   \<and> (\<exists>s'. main_step half_world sample_lib (1 / 2) init_state merge1 = Inr s'
          \<and> fee_fields (last (enriched s')) = (PNone, PNone, PStr ''error:timed out''))"
proof -
  have f1: "failing_world [] (GetTxReceipt (PStr ''0xabc'')) = Inl ''timed out''"
    by (simp add: failing_world_def)
  have f2: "half_world [GetTxReceipt (PStr ''0xabc'')] (GetTxData (PStr ''0xabc'')) = Inl ''timed out''"
    by (simp add: half_world_def)
  have pre: "half_world [] (GetTxReceipt (PStr ''0xabc'')) = Inl ''timed out''
           \<or> (\<exists>r. half_world [] (GetTxReceipt (PStr ''0xabc'')) = Inr (PDict r) \<and> r \<noteq> []
                  \<and> hex_to_int (dget r ''effectiveGasPrice'') = None
                  \<and> half_world ([] @ [GetTxReceipt (PStr ''0xabc'')]) (GetTxData (PStr ''0xabc''))
                       = Inl ''timed out'')"
    by (simp add: half_world_def dget_def)
  have a: "fst (fee_or_error failing_world [] (PStr ''0xabc''))
             = [(''feeMATIC'', PNone), (''note'', PStr (''error:'' @ ''timed out''))]"
    using fee_error_absorption [of failing_world "[]" "PStr ''0xabc''" "''timed out''"] f1
    by blast
  note b = fee_error_absorption [OF pre]
  have m: "tx_of merge1 = PStr ''0xabc'' \<and> truthy (PStr ''0xabc'') \<and> hashable (PStr ''0xabc'')
           \<and> calls init_state = [] \<and> cache_get (tx_cache init_state) (PStr ''0xabc'') = None"
    by (simp add: tx_of_def merge1_def dget_def py_or_def init_state_def)
  from b m have "\<exists>s'. main_step half_world sample_lib (1 / 2) init_state merge1 = Inr s'
          \<and> fee_fields (last (enriched s')) = (PNone, PNone, PStr (''error:'' @ ''timed out''))"
    by blast
  with a b f1 f2 show ?thesis
    by simp
qed

end
